theory Spec2Isabelle
  imports Main "HOL-Library.Sublist" "HOL-Library.Word"
begin

section \<open>The Go library functions the tools call\<close>

text \<open>
  A Go string is a sequence of bytes, here a \<^typ>\<open>string\<close>. The repository calls
  \<open>strings.ToUpper\<close>, \<open>strings.ToLower\<close>, \<open>strings.TrimSpace\<close>, \<open>strings.HasPrefix\<close>,
  \<open>strings.Contains\<close>, \<open>strings.Join\<close>, \<open>strings.Repeat\<close>, \<open>fmt.Sprintf\<close> with the verbs
  \<open>%d\<close>, \<open>%s\<close>, \<open>%g\<close>, \<open>%v\<close>, \<open>time.Time.Format\<close>, \<open>strconv.Atoi\<close> and the conversion
  \<open>int(f)\<close> of a \<open>float64\<close>. What is computed on bytes alone is defined below; the
  parts that need the Unicode tables, the floating-point printer or the platform are the
  fields of \<open>golib\<close>.
\<close>

datatype gofloat = FFinite int int | FInf bool | FNaN
  \<comment> \<open>\<open>FFinite m e\<close> is the number \<open>m * 2 ^ e\<close>; every finite float is of this form\<close>

record golib =
  unicodeUpper :: "string \<Rightarrow> string"
    \<comment> \<open>\<open>strings.ToUpper\<close> on a string with a byte outside ASCII\<close>
  unicodeLower :: "string \<Rightarrow> string"
    \<comment> \<open>\<open>strings.ToLower\<close> on a string with a byte outside ASCII\<close>
  formatFloat :: "nat \<Rightarrow> gofloat \<Rightarrow> string"
    \<comment> \<open>\<open>fmt.Sprintf("%g", f)\<close> for a float of the given bit size\<close>
  convOutOfRange :: "gofloat \<Rightarrow> 64 word"
    \<comment> \<open>\<open>int(f)\<close> when the truncated \<open>f\<close> is no 64-bit integer: the language leaves the
        result to the implementation\<close>
  atoi :: "string \<Rightarrow> int option"
    \<comment> \<open>\<open>strconv.Atoi\<close>, \<open>None\<close> for an error\<close>

definition isASCII :: "char \<Rightarrow> bool" where
  "isASCII c = ((of_char c :: nat) < 128)"

definition upperByte :: "char \<Rightarrow> char" where
  "upperByte c = (if (97::nat) \<le> of_char c \<and> (of_char c :: nat) \<le> 122
                  then char_of ((of_char c :: nat) - 32) else c)"

definition lowerByte :: "char \<Rightarrow> char" where
  "lowerByte c = (if (65::nat) \<le> of_char c \<and> (of_char c :: nat) \<le> 90
                  then char_of ((of_char c :: nat) + 32) else c)"

definition ToUpper :: "'a golib_scheme \<Rightarrow> string \<Rightarrow> string" where
  "ToUpper L s = (if list_all isASCII s then map upperByte s else unicodeUpper L s)"

definition ToLower :: "'a golib_scheme \<Rightarrow> string \<Rightarrow> string" where
  "ToLower L s = (if list_all isASCII s then map lowerByte s else unicodeLower L s)"

definition HasPrefix :: "string \<Rightarrow> string \<Rightarrow> bool" where
  "HasPrefix s p = (length p \<le> length s \<and> take (length p) s = p)"

fun Contains :: "string \<Rightarrow> string \<Rightarrow> bool" where
  "Contains [] sub = (sub = [])"
| "Contains (c # s) sub = (HasPrefix (c # s) sub \<or> Contains s sub)"

fun Join :: "string list \<Rightarrow> string \<Rightarrow> string" where
  "Join [] sep = []"
| "Join [x] sep = x"
| "Join (x # y # xs) sep = x @ sep @ Join (y # xs) sep"

definition Repeat :: "string \<Rightarrow> nat \<Rightarrow> string" where
  "Repeat s n = concat (replicate n s)"

text \<open>
  \<open>strings.TrimSpace\<close> removes the leading and trailing runes that \<open>unicode.IsSpace\<close>
  accepts: the six ASCII ones, U+0085, U+00A0, U+1680, U+2000 to U+200A, U+2028, U+2029,
  U+202F, U+205F and U+3000, each in its UTF-8 encoding. \<open>spaceLen s\<close> is the length of
  such an encoding at the front of \<open>s\<close>, or 0; \<open>spaceLenRev\<close> is the same at the end of a
  string that is given reversed.
\<close>

definition asciiSpace :: "char \<Rightarrow> bool" where
  "asciiSpace c = (c = CHR 0x09 \<or> c = CHR 0x0A \<or> c = CHR 0x0B \<or> c = CHR 0x0C
                   \<or> c = CHR 0x0D \<or> c = CHR 0x20)"

definition inRange :: "char \<Rightarrow> nat \<Rightarrow> nat \<Rightarrow> bool" where
  "inRange c lo hi = (lo \<le> of_char c \<and> (of_char c :: nat) \<le> hi)"

fun spaceLen :: "string \<Rightarrow> nat" where
  "spaceLen (a # b # c # s) =
     (if asciiSpace a then 1
      else if a = CHR 0xC2 \<and> (b = CHR 0x85 \<or> b = CHR 0xA0) then 2
      else if a = CHR 0xE1 \<and> b = CHR 0x9A \<and> c = CHR 0x80 then 3
      else if a = CHR 0xE2 \<and> b = CHR 0x80
              \<and> (inRange c 0x80 0x8A \<or> c = CHR 0xA8 \<or> c = CHR 0xA9 \<or> c = CHR 0xAF) then 3
      else if a = CHR 0xE2 \<and> b = CHR 0x81 \<and> c = CHR 0x9F then 3
      else if a = CHR 0xE3 \<and> b = CHR 0x80 \<and> c = CHR 0x80 then 3
      else 0)"
| "spaceLen [a, b] =
     (if asciiSpace a then 1
      else if a = CHR 0xC2 \<and> (b = CHR 0x85 \<or> b = CHR 0xA0) then 2
      else 0)"
| "spaceLen [a] = (if asciiSpace a then 1 else 0)"
| "spaceLen [] = 0"

fun spaceLenRev :: "string \<Rightarrow> nat" where
  "spaceLenRev (c # b # a # s) =
     (if asciiSpace c then 1
      else if b = CHR 0xC2 \<and> (c = CHR 0x85 \<or> c = CHR 0xA0) then 2
      else if a = CHR 0xE1 \<and> b = CHR 0x9A \<and> c = CHR 0x80 then 3
      else if a = CHR 0xE2 \<and> b = CHR 0x80
              \<and> (inRange c 0x80 0x8A \<or> c = CHR 0xA8 \<or> c = CHR 0xA9 \<or> c = CHR 0xAF) then 3
      else if a = CHR 0xE2 \<and> b = CHR 0x81 \<and> c = CHR 0x9F then 3
      else if a = CHR 0xE3 \<and> b = CHR 0x80 \<and> c = CHR 0x80 then 3
      else 0)"
| "spaceLenRev [c, b] =
     (if asciiSpace c then 1
      else if b = CHR 0xC2 \<and> (c = CHR 0x85 \<or> c = CHR 0xA0) then 2
      else 0)"
| "spaceLenRev [c] = (if asciiSpace c then 1 else 0)"
| "spaceLenRev [] = 0"

function trimFront :: "(string \<Rightarrow> nat) \<Rightarrow> string \<Rightarrow> string" where
  "trimFront f s = (if f s = 0 \<or> s = [] then s else trimFront f (drop (f s) s))"
  by pat_completeness auto
termination
  by (relation "measure (\<lambda>(f, s). length s)") auto

declare trimFront.simps [simp del]

definition TrimLeftSpace :: "string \<Rightarrow> string" where
  "TrimLeftSpace s = trimFront spaceLen s"

definition TrimRightSpace :: "string \<Rightarrow> string" where
  "TrimRightSpace s = rev (trimFront spaceLenRev (rev s))"

definition TrimSpace :: "string \<Rightarrow> string" where
  "TrimSpace s = TrimRightSpace (TrimLeftSpace s)"

text \<open>The verb \<open>%d\<close>: decimal digits, with a minus sign for a negative number.\<close>

definition digitChar :: "nat \<Rightarrow> char" where
  "digitChar d = ''0123456789'' ! d"

fun digitsOf :: "nat \<Rightarrow> string" where
  "digitsOf n = (if n < 10 then [digitChar n] else digitsOf (n div 10) @ [digitChar (n mod 10)])"

declare digitsOf.simps [simp del]

definition formatInt :: "int \<Rightarrow> string" where
  "formatInt i = (if i < 0 then CHR ''-'' # digitsOf (nat (- i)) else digitsOf (nat i))"

text \<open>
  A \<open>time.Time\<close> is kept as the calendar fields it has in its own location.
  \<open>Format\<close> with the layout \<open>2006-01-02 15:04:05\<close> writes the year padded to four digits
  and every other field padded to two (\<open>appendInt\<close> of package \<open>time\<close>).
\<close>

record gotime =
  tYear :: int
  tMonth :: int
  tDay :: int
  tHour :: int
  tMinute :: int
  tSecond :: int

definition appendInt :: "int \<Rightarrow> nat \<Rightarrow> string" where
  "appendInt x width =
     (let ds = digitsOf (nat \<bar>x\<bar>)
      in (if x < 0 then ''-'' else []) @ replicate (width - length ds) (CHR ''0'') @ ds)"

definition Format :: "gotime \<Rightarrow> string" where
  "Format t = appendInt (tYear t) 4 @ ''-'' @ appendInt (tMonth t) 2 @ ''-''
              @ appendInt (tDay t) 2 @ '' '' @ appendInt (tHour t) 2 @ '':''
              @ appendInt (tMinute t) 2 @ '':'' @ appendInt (tSecond t) 2"

definition zeroTime :: gotime where
  "zeroTime = \<lparr>tYear = 1, tMonth = 1, tDay = 1, tHour = 0, tMinute = 0, tSecond = 0\<rparr>"

text \<open>
  The conversion \<open>int(f)\<close> drops the fraction (towards zero). When the result does not
  fit the 64-bit \<open>int\<close>, or \<open>f\<close> is an infinity or a NaN, the value is the platform's.
\<close>

definition truncFloat :: "int \<Rightarrow> int \<Rightarrow> int" where
  "truncFloat m e = (if 0 \<le> e then m * 2 ^ nat e else sgn m * (\<bar>m\<bar> div 2 ^ nat (- e)))"

definition fitsInt :: "int \<Rightarrow> bool" where
  "fitsInt i = (- (2 ^ 63) \<le> i \<and> i < 2 ^ 63)"

definition intOfFloat :: "'a golib_scheme \<Rightarrow> gofloat \<Rightarrow> int" where
  "intOfFloat L f =
     (case f of
        FFinite m e \<Rightarrow>
          if fitsInt (truncFloat m e) then truncFloat m e else sint (convOutOfRange L f)
      | _ \<Rightarrow> sint (convOutOfRange L f))"

definition floatOfInt :: "int \<Rightarrow> gofloat" where
  "floatOfInt i = FFinite i 0"

section \<open>Safety classifier and limit resolver\<close>

definition defaultCHLimit :: int where "defaultCHLimit = 100"
definition maxCHLimit :: int where "maxCHLimit = 1000"

definition isQuerySafe :: "'a golib_scheme \<Rightarrow> string \<Rightarrow> bool" where
  "isQuerySafe L query =
     (let trimmedQuery = TrimSpace (ToUpper L query)
      in HasPrefix trimmedQuery ''SELECT'' \<or> HasPrefix trimmedQuery ''SHOW''
         \<or> HasPrefix trimmedQuery ''DESCRIBE'')"

text \<open>
  A value held by an \<open>interface{}\<close>: what \<open>encoding/json\<close> decodes a tool argument
  into (nil, a bool, a \<open>float64\<close>, a string, a slice or a map), or a Go \<open>int\<close>, which is
  what the resolver itself returns.
\<close>

datatype any = ANil | ABool bool | AFloat64 gofloat | AString string
  | AArray "any list" | AObject "(string \<times> any) list" | AInt int

definition parseClickHouseLimit :: "'a golib_scheme \<Rightarrow> any \<Rightarrow> int" where
  "parseClickHouseLimit L limitArg =
     (case limitArg of
        AFloat64 l \<Rightarrow>
          (let limit = intOfFloat L l;
               limit = (if limit < 1 then 1 else limit);
               limit = (if limit > maxCHLimit then maxCHLimit else limit)
           in limit)
      | _ \<Rightarrow> defaultCHLimit)"

section \<open>The database driver\<close>

text \<open>
  The driver is outside the repository. A column type gives its name and the name of its
  engine type. A decode target is an \<open>interface{}\<close>: nil, a pointer to a variable of one
  of twelve Go types (kept with the variable's current value), or a value of any other
  type (kept as the text \<open>%v\<close> prints for it).
\<close>

record column =
  colName :: string
  colType :: string

datatype gval =
    UInt8 "8 word" | UInt16 "16 word" | UInt32 "32 word" | UInt64 "64 word"
  | Int8 "8 word" | Int16 "16 word" | Int32 "32 word" | Int64 "64 word"
  | Float32 gofloat | Float64 gofloat
  | Str string
  | Time gotime

datatype iface = Nil | Ptr gval | Opaque string

text \<open>
  A cursor (\<open>driver.Rows\<close>): \<open>ColumnTypes()\<close>, the rows that \<open>Next()\<close> will still
  deliver, what \<open>Scan\<close> does with the current row and the targets it is given (an error,
  or the targets after the call), and what \<open>Err()\<close> returns after the loop.
\<close>

record 'r rows =
  columnTypes :: "column list"
  pending :: "'r list"
  scanRow :: "'r \<Rightarrow> iface list \<Rightarrow> string + iface list"
  rowsErr :: "string option"

section \<open>Result materializer\<close>

definition newTarget :: "string \<Rightarrow> iface" where
  "newTarget databaseTypeName =
     (if databaseTypeName = ''UInt8'' then Ptr (UInt8 0)
      else if databaseTypeName = ''UInt16'' then Ptr (UInt16 0)
      else if databaseTypeName = ''UInt32'' then Ptr (UInt32 0)
      else if databaseTypeName = ''UInt64'' then Ptr (UInt64 0)
      else if databaseTypeName = ''Int8'' then Ptr (Int8 0)
      else if databaseTypeName = ''Int16'' then Ptr (Int16 0)
      else if databaseTypeName = ''Int32'' then Ptr (Int32 0)
      else if databaseTypeName = ''Int64'' then Ptr (Int64 0)
      else if databaseTypeName = ''Float32'' then Ptr (Float32 (FFinite 0 0))
      else if databaseTypeName = ''Float64'' then Ptr (Float64 (FFinite 0 0))
      else if databaseTypeName = ''String'' \<or> databaseTypeName = ''FixedString''
        then Ptr (Str [])
      else if databaseTypeName = ''Date'' \<or> databaseTypeName = ''DateTime''
              \<or> databaseTypeName = ''DateTime64''
        then Ptr (Time zeroTime)
      else Ptr (Str []))"

definition createValueSlice :: "column list \<Rightarrow> iface list" where
  "createValueSlice colTypes = map (\<lambda>colType. newTarget (column.colType colType)) colTypes"

fun convertValue :: "'a golib_scheme \<Rightarrow> iface \<Rightarrow> string" where
  "convertValue L Nil = ''NULL''"
| "convertValue L (Ptr (UInt8 v)) = formatInt (uint v)"
| "convertValue L (Ptr (UInt16 v)) = formatInt (uint v)"
| "convertValue L (Ptr (UInt32 v)) = formatInt (uint v)"
| "convertValue L (Ptr (UInt64 v)) = formatInt (uint v)"
| "convertValue L (Ptr (Int8 v)) = formatInt (sint v)"
| "convertValue L (Ptr (Int16 v)) = formatInt (sint v)"
| "convertValue L (Ptr (Int32 v)) = formatInt (sint v)"
| "convertValue L (Ptr (Int64 v)) = formatInt (sint v)"
| "convertValue L (Ptr (Float32 v)) = formatFloat L 32 v"
| "convertValue L (Ptr (Float64 v)) = formatFloat L 64 v"
| "convertValue L (Ptr (Str v)) = v"
| "convertValue L (Ptr (Time v)) = Format v"
| "convertValue L (Opaque shown) = shown"

definition convertValuesToStrings :: "'a golib_scheme \<Rightarrow> iface list \<Rightarrow> string list" where
  "convertValuesToStrings L values = map (convertValue L) values"

text \<open>
  The loop \<open>for rows.Next()\<close> of \<open>formatQueryResults\<close>: \<open>rest\<close> are the rows not yet
  delivered, \<open>result\<close> is the text built so far.
\<close>

fun scanLoop ::
  "'a golib_scheme \<Rightarrow> ('r, 'b) rows_scheme \<Rightarrow> int \<Rightarrow> 'r list \<Rightarrow> int \<Rightarrow> string
    \<Rightarrow> string + (string \<times> int)" where
  "scanLoop L rows limit [] rowCount result = Inr (result, rowCount)"
| "scanLoop L rows limit (r # rest) rowCount result =
     (if rowCount \<ge> limit then Inr (result, rowCount)
      else
        (case scanRow rows r (createValueSlice (columnTypes rows)) of
           Inl err \<Rightarrow> Inl (''failed to scan row: '' @ err)
         | Inr values \<Rightarrow>
             scanLoop L rows limit rest (rowCount + 1)
               (result @ Join (convertValuesToStrings L values) '' | '' @ ''\<newline>'')))"

definition formatQueryResults ::
  "'a golib_scheme \<Rightarrow> ('r, 'b) rows_scheme \<Rightarrow> int \<Rightarrow> string + string" where
  "formatQueryResults L rows limit =
     (let columnNames = map colName (columnTypes rows);
          result = ''Query Results:\<newline>\<newline>'' @ Join columnNames '' | '' @ ''\<newline>''
                   @ Repeat ''-'' (length (Join columnNames '' | '')) @ ''\<newline>''
      in case scanLoop L rows limit (pending rows) 0 result of
           Inl err \<Rightarrow> Inl err
         | Inr (result, rowCount) \<Rightarrow>
             (case rowsErr rows of
                Some err \<Rightarrow> Inl (''error iterating rows: '' @ err)
              | None \<Rightarrow>
                  if rowCount = 0 then Inr (result @ ''No rows returned.\<newline>'')
                  else Inr (result @ ''\<newline>Total rows: '' @ formatInt rowCount
                            @ (if rowCount \<ge> limit
                               then '' (limited to '' @ formatInt limit @ '')'' else [])
                            @ ''\<newline>'')))"

section \<open>Connection provider, query executor and the query handler\<close>

record ClickHouseConfig =
  Host :: string
  Port :: int
  Database :: string
  Username :: string
  Password :: string
  Secure :: bool

text \<open>
  The fields of \<open>clickhouse.Options\<close> that \<open>connectToClickHouse\<close> sets; durations in
  seconds, \<open>optTLS\<close> for a TLS configuration that is not nil.
\<close>

record options =
  optAddr :: "string list"
  optDatabase :: string
  optUsername :: string
  optPassword :: string
  optProducts :: "(string \<times> string) list"
  optMaxExecutionTime :: int
  optCompressionLZ4 :: bool
  optDialTimeout :: int
  optMaxOpenConns :: int
  optMaxIdleConns :: int
  optConnMaxLifetime :: int
  optBlockBufferSize :: int
  optTLS :: bool

text \<open>
  The driver's entry points, as the outcomes they have: \<open>clickhouse.Open\<close>, \<open>conn.Ping\<close>
  (\<open>None\<close> when the server answers) and \<open>conn.Query\<close>. Every call of the driver is
  recorded as an event, in the order of the calls.
\<close>

record ('c, 'r) driver =
  drvOpen :: "options \<Rightarrow> string + 'c"
  drvPing :: "'c \<Rightarrow> string option"
  drvQuery :: "'c \<Rightarrow> string \<Rightarrow> string + 'r rows"

datatype event = EvOpen options | EvPing | EvConnClose | EvQuery string | EvRowsClose

definition chTimeout :: int where "chTimeout = 30"
definition maxConnections :: int where "maxConnections = 5"
definition connLifetime :: int where "connLifetime = 600"
definition defaultCHPort :: int where "defaultCHPort = 9000"
definition defaultCHDatabase :: string where "defaultCHDatabase = ''default''"
definition defaultCHUsername :: string where "defaultCHUsername = ''default''"

definition connectToClickHouse ::
  "('c, 'r) driver \<Rightarrow> ClickHouseConfig \<Rightarrow> (string + 'c) \<times> event list" where
  "connectToClickHouse D config =
     (let opts = \<lparr>optAddr = [Host config @ '':'' @ formatInt (Port config)],
                   optDatabase = Database config,
                   optUsername = Username config,
                   optPassword = Password config,
                   optProducts = [(''local-mcp'', ''1.0.0'')],
                   optMaxExecutionTime = 60,
                   optCompressionLZ4 = True,
                   optDialTimeout = chTimeout,
                   optMaxOpenConns = maxConnections,
                   optMaxIdleConns = maxConnections,
                   optConnMaxLifetime = connLifetime,
                   optBlockBufferSize = 10,
                   optTLS = Secure config\<rparr>
      in case drvOpen D opts of
           Inl err \<Rightarrow> (Inl (''failed to open connection: '' @ err), [EvOpen opts])
         | Inr conn \<Rightarrow>
             (case drvPing D conn of
                Some err \<Rightarrow>
                  (Inl (''failed to ping ClickHouse: '' @ err), [EvOpen opts, EvPing, EvConnClose])
              | None \<Rightarrow> (Inr conn, [EvOpen opts, EvPing])))"

definition executeQuery ::
  "'a golib_scheme \<Rightarrow> ('c, 'r) driver \<Rightarrow> 'c \<Rightarrow> string \<Rightarrow> int
    \<Rightarrow> (string + string) \<times> event list" where
  "executeQuery L D conn query limit =
     (let query = (if HasPrefix (TrimSpace (ToUpper L query)) ''SELECT''
                      \<and> \<not> Contains (ToUpper L query) ''LIMIT''
                   then query @ '' LIMIT '' @ formatInt limit else query)
      in case drvQuery D conn query of
           Inl err \<Rightarrow> (Inl (''query execution failed: '' @ err), [EvQuery query])
         | Inr rows \<Rightarrow> (formatQueryResults L rows limit, [EvQuery query, EvRowsClose]))"

text \<open>The environment is \<open>os.Getenv\<close>: the empty string for a variable that is not set.\<close>

definition parseEnvInt :: "'a golib_scheme \<Rightarrow> (string \<Rightarrow> string) \<Rightarrow> string \<Rightarrow> int \<Rightarrow> int" where
  "parseEnvInt L getenv envVar defaultValue =
     (let str = getenv envVar
      in if str = [] then defaultValue
         else (case atoi L str of None \<Rightarrow> defaultValue | Some v \<Rightarrow> v))"

definition getEnvOrDefault :: "(string \<Rightarrow> string) \<Rightarrow> string \<Rightarrow> string \<Rightarrow> string" where
  "getEnvOrDefault getenv envVar defaultValue =
     (let v = getenv envVar in if v = [] then defaultValue else v)"

definition parseEnvBool :: "'a golib_scheme \<Rightarrow> (string \<Rightarrow> string) \<Rightarrow> string \<Rightarrow> bool" where
  "parseEnvBool L getenv envVar = (ToLower L (getenv envVar) = ''true'')"

definition getClickHouseConfigFromEnv ::
  "'a golib_scheme \<Rightarrow> (string \<Rightarrow> string) \<Rightarrow> ClickHouseConfig option" where
  "getClickHouseConfigFromEnv L getenv =
     (let host = getenv ''CLICKHOUSE_HOST''
      in if host = [] then None
         else Some \<lparr>Host = host,
                     Port = parseEnvInt L getenv ''CLICKHOUSE_PORT'' defaultCHPort,
                     Database = getEnvOrDefault getenv ''CLICKHOUSE_DATABASE'' defaultCHDatabase,
                     Username = getEnvOrDefault getenv ''CLICKHOUSE_USERNAME'' defaultCHUsername,
                     Password = getenv ''CLICKHOUSE_PASSWORD'',
                     Secure = parseEnvBool L getenv ''CLICKHOUSE_SECURE''\<rparr>)"

record CallToolResult =
  IsError :: bool
  Text :: string

definition errorResult :: "string \<Rightarrow> CallToolResult" where
  "errorResult message = \<lparr>IsError = True, Text = message\<rparr>"

definition successResult :: "string \<Rightarrow> CallToolResult" where
  "successResult content = \<lparr>IsError = False, Text = content\<rparr>"

definition arg :: "(string \<rightharpoonup> any) \<Rightarrow> string \<Rightarrow> any" where
  "arg args key = (case args key of None \<Rightarrow> ANil | Some v \<Rightarrow> v)"

definition clickHouseQueryHandler ::
  "'a golib_scheme \<Rightarrow> ('c, 'r) driver \<Rightarrow> (string \<Rightarrow> string) \<Rightarrow> (string \<rightharpoonup> any)
    \<Rightarrow> CallToolResult \<times> event list" where
  "clickHouseQueryHandler L D getenv args =
     (case arg args ''query'' of
        AString query \<Rightarrow>
          if TrimSpace query = [] then
            (errorResult ''Query parameter is required and must be a non-empty string'', [])
          else if \<not> isQuerySafe L query then
            (errorResult
               ''Only SELECT, SHOW, and DESCRIBE queries are allowed for security reasons'', [])
          else
            (case getClickHouseConfigFromEnv L getenv of
               None \<Rightarrow>
                 (errorResult (''ClickHouse configuration not found in environment variables. ''
                               @ ''Please check your settings.''), [])
             | Some config \<Rightarrow>
                 (let limit = parseClickHouseLimit L (arg args ''limit'')
                  in case connectToClickHouse D config of
                       (Inl err, t1) \<Rightarrow>
                         (errorResult (''Failed to connect to ClickHouse: '' @ err
                                       @ ''\<newline>Please verify your connection settings.''), t1)
                     | (Inr conn, t1) \<Rightarrow>
                         (case executeQuery L D conn query limit of
                            (Inl err, t2) \<Rightarrow>
                              (errorResult (''Query execution failed: '' @ err),
                               t1 @ t2 @ [EvConnClose])
                          | (Inr results, t2) \<Rightarrow>
                              (successResult results, t1 @ t2 @ [EvConnClose]))))
      | _ \<Rightarrow> (errorResult ''Query parameter is required and must be a non-empty string'', []))"

definition connectionAttempts :: "event list \<Rightarrow> nat" where
  "connectionAttempts evs = length (filter (\<lambda>e. case e of EvOpen _ \<Rightarrow> True | _ \<Rightarrow> False) evs)"

section \<open>A driver for the examples\<close>

text \<open>
  \<open>Scan\<close> receives pointers and stores through them: it may change the variables, not
  the kind of target in a position. \<open>storesThrough\<close> says so of a cursor's \<open>Scan\<close>.
  The examples use \<open>storeRow\<close>: a row is a list of cells, \<open>None\<close> for a database NULL; a
  cell of the target's own type is stored, a NULL leaves the variable as it is, and
  anything else is a conversion error.
\<close>

fun typeName :: "gval \<Rightarrow> string" where
  "typeName (UInt8 _) = ''uint8''"
| "typeName (UInt16 _) = ''uint16''"
| "typeName (UInt32 _) = ''uint32''"
| "typeName (UInt64 _) = ''uint64''"
| "typeName (Int8 _) = ''int8''"
| "typeName (Int16 _) = ''int16''"
| "typeName (Int32 _) = ''int32''"
| "typeName (Int64 _) = ''int64''"
| "typeName (Float32 _) = ''float32''"
| "typeName (Float64 _) = ''float64''"
| "typeName (Str _) = ''string''"
| "typeName (Time _) = ''time.Time''"

definition sameType :: "gval \<Rightarrow> gval \<Rightarrow> bool" where
  "sameType a b = (typeName a = typeName b)"

fun sameTarget :: "iface \<Rightarrow> iface \<Rightarrow> bool" where
  "sameTarget Nil Nil = True"
| "sameTarget (Ptr a) (Ptr b) = sameType a b"
| "sameTarget (Opaque a) (Opaque b) = (a = b)"
| "sameTarget _ _ = False"

definition storesThrough :: "('r, 'b) rows_scheme \<Rightarrow> bool" where
  "storesThrough rows =
     (\<forall>r dest dest'. scanRow rows r dest = Inr dest' \<longrightarrow> list_all2 sameTarget dest dest')"

fun storeCell :: "gval option \<Rightarrow> iface \<Rightarrow> string + iface" where
  "storeCell None dest = Inr dest"
| "storeCell (Some v) (Ptr old) =
     (if sameType v old then Inr (Ptr v) else Inl ''unsupported conversion'')"
| "storeCell (Some v) dest = Inl ''destination is not a supported pointer''"

fun storeRow :: "gval option list \<Rightarrow> iface list \<Rightarrow> string + iface list" where
  "storeRow [] [] = Inr []"
| "storeRow (c # cs) (d # ds) =
     (case storeCell c d of
        Inl err \<Rightarrow> Inl err
      | Inr d' \<Rightarrow> (case storeRow cs ds of Inl err \<Rightarrow> Inl err | Inr ds' \<Rightarrow> Inr (d' # ds')))"
| "storeRow _ _ = Inl ''wrong number of destination arguments''"

definition cursor :: "column list \<Rightarrow> gval option list list \<Rightarrow> (gval option list) rows" where
  "cursor cols rs = \<lparr>columnTypes = cols, pending = rs, scanRow = storeRow, rowsErr = None\<rparr>"

text \<open>
  A library for the examples. Its \<open>convOutOfRange\<close> is the one of amd64, where the
  conversion instruction answers every value out of range with the least 64-bit integer;
  the examples consult no other field.
\<close>

definition exampleLib :: golib where
  "exampleLib = \<lparr>unicodeUpper = (\<lambda>s. s), unicodeLower = (\<lambda>s. s),
                  formatFloat = (\<lambda>bits f. ''NaN''),
                  convOutOfRange = (\<lambda>f. 0x8000000000000000),
                  atoi = (\<lambda>s. None)\<rparr>"

definition exampleColumns :: "column list" where
  "exampleColumns = [\<lparr>colName = ''id'', colType = ''UInt32''\<rparr>,
                     \<lparr>colName = ''name'', colType = ''String''\<rparr>]"

definition exampleRows :: "gval option list list" where
  "exampleRows = [[Some (UInt32 1), Some (Str ''a'')], [Some (UInt32 2), Some (Str ''b'')],
                  [Some (UInt32 3), Some (Str ''c'')]]"

definition exampleDriver :: "(unit, gval option list) driver" where
  "exampleDriver = \<lparr>drvOpen = (\<lambda>opts. Inr ()), drvPing = (\<lambda>conn. None),
                     drvQuery = (\<lambda>conn q. Inr (cursor exampleColumns exampleRows))\<rparr>"

definition exampleEnv :: "string \<Rightarrow> string" where
  "exampleEnv name = (if name = ''CLICKHOUSE_HOST'' then ''localhost'' else [])"

section \<open>Notions used to state the properties\<close>

text \<open>The queries handed to \<open>conn.Query\<close> in a sequence of driver calls.\<close>

definition submitted :: "event list \<Rightarrow> string list" where
  "submitted evs = concat (map (\<lambda>e. case e of EvQuery q \<Rightarrow> [q] | _ \<Rightarrow> []) evs)"

text \<open>
  The parts of a rendered table: the text up to the separator rule, the line of one row,
  and the summary after \<open>n\<close> rows under a limit.
\<close>

definition headerText :: "column list \<Rightarrow> string" where
  "headerText cols =
     ''Query Results:\<newline>\<newline>'' @ Join (map colName cols) '' | '' @ ''\<newline>''
     @ replicate (length (Join (map colName cols) '' | '')) (CHR ''-'') @ ''\<newline>''"

definition rowLine :: "string list \<Rightarrow> string" where
  "rowLine fs = Join fs '' | '' @ ''\<newline>''"

definition summaryText :: "int \<Rightarrow> int \<Rightarrow> string" where
  "summaryText n limit =
     (if n = 0 then ''No rows returned.\<newline>''
      else ''\<newline>Total rows: '' @ formatInt n
           @ (if n \<ge> limit then '' (limited to '' @ formatInt limit @ '')'' else [])
           @ ''\<newline>'')"

text \<open>
  The decode targets as a table from the engine's type names to Go types, with \<open>string\<close>
  for a name that is not listed.
\<close>

definition decodeTable :: "(string \<times> string) list" where
  "decodeTable =
     [(''UInt8'', ''uint8''), (''UInt16'', ''uint16''), (''UInt32'', ''uint32''),
      (''UInt64'', ''uint64''), (''Int8'', ''int8''), (''Int16'', ''int16''),
      (''Int32'', ''int32''), (''Int64'', ''int64''), (''Float32'', ''float32''),
      (''Float64'', ''float64''), (''String'', ''string''), (''FixedString'', ''string''),
      (''Date'', ''time.Time''), (''DateTime'', ''time.Time''), (''DateTime64'', ''time.Time'')]"

definition goTypeFor :: "string \<Rightarrow> string" where
  "goTypeFor tag = (case map_of decodeTable tag of Some t \<Rightarrow> t | None \<Rightarrow> ''string'')"

fun pointee :: "iface \<Rightarrow> string" where
  "pointee (Ptr v) = typeName v"
| "pointee Nil = ''nil''"
| "pointee (Opaque shown) = ''other''"

text \<open>The number that a string of decimal digits with an optional minus sign denotes.\<close>

definition digitValue :: "char \<Rightarrow> nat" where
  "digitValue c = of_char c - 48"

definition decimalValue :: "string \<Rightarrow> int" where
  "decimalValue s =
     (case s of
        [] \<Rightarrow> 0
      | c # cs \<Rightarrow>
          if c = CHR ''-'' then - int (foldl (\<lambda>a d. 10 * a + digitValue d) 0 cs)
          else int (foldl (\<lambda>a d. 10 * a + digitValue d) 0 s))"

definition isDigit :: "char \<Rightarrow> bool" where
  "isDigit c = (48 \<le> (of_char c :: nat) \<and> (of_char c :: nat) \<le> 57)"

text \<open>Two decimal digits of a number below 100, four of a number below 10000.\<close>

definition twoDigits :: "int \<Rightarrow> string" where
  "twoDigits x = [digitChar (nat x div 10), digitChar (nat x mod 10)]"

definition fourDigits :: "int \<Rightarrow> string" where
  "fourDigits x = [digitChar (nat x div 1000), digitChar (nat x div 100 mod 10),
                   digitChar (nat x div 10 mod 10), digitChar (nat x mod 10)]"

text \<open>The calendar fields of a time whose year has at most four digits.\<close>

definition civil :: "gotime \<Rightarrow> bool" where
  "civil t = (0 \<le> tYear t \<and> tYear t \<le> 9999 \<and> 1 \<le> tMonth t \<and> tMonth t \<le> 12
              \<and> 1 \<le> tDay t \<and> tDay t \<le> 31 \<and> 0 \<le> tHour t \<and> tHour t \<le> 23
              \<and> 0 \<le> tMinute t \<and> tMinute t \<le> 59 \<and> 0 \<le> tSecond t \<and> tSecond t \<le> 59)"

text \<open>
  The rows of a cursor scanned one after the other into fresh targets, up to the first
  row that \<open>Scan\<close> rejects.
\<close>

fun scanEach :: "('r, 'b) rows_scheme \<Rightarrow> 'r list \<Rightarrow> string + iface list list" where
  "scanEach rows [] = Inr []"
| "scanEach rows (r # rs) =
     (case scanRow rows r (createValueSlice (columnTypes rows)) of
        Inl err \<Rightarrow> Inl err
      | Inr vs \<Rightarrow> (case scanEach rows rs of Inl err \<Rightarrow> Inl err | Inr vss \<Rightarrow> Inr (vs # vss)))"

text \<open>The number of lines of a text: its newline characters.\<close>

definition physicalLines :: "string \<Rightarrow> nat" where
  "physicalLines s = length (filter (\<lambda>c. c = CHR 0x0A) s)"

section \<open>Library facts\<close>

lemma HasPrefix_iff_prefix: "HasPrefix s p \<longleftrightarrow> prefix p s"
proof
  assume "HasPrefix s p"
  then have "s = p @ drop (length p) s"
    by (metis HasPrefix_def append_take_drop_id)
  then show "prefix p s" by (metis prefixI)
next
  assume "prefix p s"
  then obtain zs where "s = p @ zs" by (auto simp: prefix_def)
  then show "HasPrefix s p" by (simp add: HasPrefix_def)
qed

lemma Contains_iff_sublist: "Contains s sub \<longleftrightarrow> sublist sub s"
  by (induction s) (auto simp: HasPrefix_iff_prefix sublist_Cons_right)

subsection \<open>Decimal digits and the time layout\<close>

lemma digitsOf_lt10: "n < 10 \<Longrightarrow> digitsOf n = [digitChar n]"
  by (simp add: digitsOf.simps)

lemma digitsOf_lt100:
  "10 \<le> n \<Longrightarrow> n < 100 \<Longrightarrow> digitsOf n = [digitChar (n div 10), digitChar (n mod 10)]"
  by (subst digitsOf.simps) (simp add: digitsOf_lt10)

lemma div_10_10: "(n::nat) div 10 div 10 = n div 100"
  by (simp add: div_mult2_eq [symmetric])

lemma div_10_100: "(n::nat) div 10 div 100 = n div 1000"
  by (simp add: div_mult2_eq [symmetric])

lemma digitsOf_lt1000:
  "100 \<le> n \<Longrightarrow> n < 1000 \<Longrightarrow>
   digitsOf n = [digitChar (n div 100), digitChar (n div 10 mod 10), digitChar (n mod 10)]"
  by (subst digitsOf.simps) (simp add: digitsOf_lt100 div_10_10)

lemma digitsOf_lt10000:
  "1000 \<le> n \<Longrightarrow> n < 10000 \<Longrightarrow>
   digitsOf n = [digitChar (n div 1000), digitChar (n div 100 mod 10),
                 digitChar (n div 10 mod 10), digitChar (n mod 10)]"
  by (subst digitsOf.simps) (simp add: digitsOf_lt1000 div_10_10 div_10_100)

lemma digitChar_0: "digitChar 0 = CHR ''0''"
  by (simp add: digitChar_def)

lemma replicate_2: "replicate 2 c = [c, c]"
  by (simp add: numeral_2_eq_2)

lemma replicate_3: "replicate 3 c = [c, c, c]"
  by (simp add: numeral_3_eq_3)

lemma appendInt_two: "0 \<le> x \<Longrightarrow> x \<le> 99 \<Longrightarrow> appendInt x 2 = twoDigits x"
proof -
  assume a: "0 \<le> x" "x \<le> 99"
  consider "nat x < 10" | "10 \<le> nat x" "nat x < 100" using a by linarith
  then show ?thesis
  proof cases
    case 1
    then show ?thesis using a
      by (simp add: appendInt_def twoDigits_def digitsOf_lt10 digitChar_0)
  next
    case 2
    then show ?thesis using a
      by (simp add: appendInt_def twoDigits_def digitsOf_lt100)
  qed
qed

lemma appendInt_four: "0 \<le> x \<Longrightarrow> x \<le> 9999 \<Longrightarrow> appendInt x 4 = fourDigits x"
proof -
  assume a: "0 \<le> x" "x \<le> 9999"
  consider "nat x < 10" | "10 \<le> nat x" "nat x < 100" | "100 \<le> nat x" "nat x < 1000"
    | "1000 \<le> nat x" "nat x < 10000" using a by linarith
  then show ?thesis
  proof cases
    case 1
    then show ?thesis using a
      by (simp add: appendInt_def fourDigits_def digitsOf_lt10 digitChar_0 replicate_2 replicate_3)
  next
    case 2
    then show ?thesis using a
      by (simp add: appendInt_def fourDigits_def digitsOf_lt100 digitChar_0 replicate_2 replicate_3)
  next
    case 3
    then show ?thesis using a
      by (simp add: appendInt_def fourDigits_def digitsOf_lt1000 digitChar_0)
  next
    case 4
    then show ?thesis using a
      by (simp add: appendInt_def fourDigits_def digitsOf_lt10000)
  qed
qed

lemma Format_civil:
  "civil t \<Longrightarrow>
   Format t = fourDigits (tYear t) @ ''-'' @ twoDigits (tMonth t) @ ''-'' @ twoDigits (tDay t)
              @ '' '' @ twoDigits (tHour t) @ '':'' @ twoDigits (tMinute t) @ '':''
              @ twoDigits (tSecond t)"
  by (simp add: civil_def Format_def appendInt_two appendInt_four)

lemma lt10_cases: "(k::nat) < 10 \<Longrightarrow> k \<in> {0, 1, 2, 3, 4, 5, 6, 7, 8, 9}"
  by auto

lemma digitValue_digitChar: "k < 10 \<Longrightarrow> digitValue (digitChar k) = k"
  by (drule lt10_cases) (auto simp: digitValue_def digitChar_def)

lemma isDigit_digitChar: "k < 10 \<Longrightarrow> isDigit (digitChar k)"
  by (drule lt10_cases) (auto simp: isDigit_def digitChar_def)

lemma digitsOf_digits: "list_all isDigit (digitsOf n)"
proof (induction n rule: digitsOf.induct)
  case (1 n)
  show ?case
  proof (cases "n < 10")
    case True
    then show ?thesis by (simp add: digitsOf_lt10 isDigit_digitChar)
  next
    case False
    then have "list_all isDigit (digitsOf (n div 10))" using 1 by simp
    then show ?thesis using False
      by (subst digitsOf.simps) (simp add: isDigit_digitChar)
  qed
qed

lemma digitsOf_value: "foldl (\<lambda>a d. 10 * a + digitValue d) 0 (digitsOf n) = n"
proof (induction n rule: digitsOf.induct)
  case (1 n)
  show ?case
  proof (cases "n < 10")
    case True
    then show ?thesis by (simp add: digitsOf_lt10 digitValue_digitChar)
  next
    case False
    then have "foldl (\<lambda>a d. 10 * a + digitValue d) 0 (digitsOf (n div 10)) = n div 10"
      using 1 by simp
    then show ?thesis using False
      by (subst digitsOf.simps) (simp add: digitValue_digitChar)
  qed
qed

lemma digitsOf_nonempty: "digitsOf n \<noteq> []"
  by (subst digitsOf.simps) simp

lemma digitsOf_no_minus: "digitsOf n = c # cs \<Longrightarrow> c \<noteq> CHR ''-''"
proof -
  assume a: "digitsOf n = c # cs"
  have "list_all isDigit (digitsOf n)" by (rule digitsOf_digits)
  with a have "isDigit c" by simp
  then show ?thesis by (auto simp: isDigit_def)
qed

lemma decimalValue_formatInt: "decimalValue (formatInt i) = i"
proof (cases "i < 0")
  case True
  then show ?thesis by (simp add: decimalValue_def formatInt_def digitsOf_value)
next
  case False
  obtain c cs where d: "digitsOf (nat i) = c # cs"
    using digitsOf_nonempty [of "nat i"] by (cases "digitsOf (nat i)") auto
  then have "c \<noteq> CHR ''-''" by (rule digitsOf_no_minus)
  moreover have "foldl (\<lambda>a d. 10 * a + digitValue d) 0 (c # cs) = nat i"
    using digitsOf_value [of "nat i"] d by simp
  ultimately show ?thesis using False d
    by (simp add: decimalValue_def formatInt_def del: foldl_Cons)
qed

section \<open>The safety classifier\<close>

text \<open>On ASCII text, upper-casing moves no white space, so trimming commutes with it.\<close>

lemma char_eq_nat: "(c = d) \<longleftrightarrow> ((of_char c :: nat) = of_char d)"
  by (metis char_of_char)

lemma asciiSpace_nat:
  "asciiSpace c \<longleftrightarrow> (of_char c :: nat) \<in> {9, 10, 11, 12, 13, 32}"
  unfolding asciiSpace_def by (simp add: char_eq_nat [of c])

lemma isASCII_not_lead:
  "isASCII a \<Longrightarrow> a \<noteq> CHR 0xC2 \<and> a \<noteq> CHR 0xE1 \<and> a \<noteq> CHR 0xE2 \<and> a \<noteq> CHR 0xE3"
  by (auto simp: isASCII_def)

lemma isASCII_upperByte: "isASCII c \<Longrightarrow> isASCII (upperByte c)"
  by (auto simp: isASCII_def upperByte_def)
lemma asciiSpace_upperByte: "asciiSpace (upperByte c) = asciiSpace c"
  by (auto simp: asciiSpace_nat upperByte_def)

lemma spaceLen_ascii:
  "isASCII a \<Longrightarrow> spaceLen (a # s) = (if asciiSpace a then 1 else 0)"
  by (cases "a # s" rule: spaceLen.cases) (simp_all add: isASCII_not_lead)

lemma spaceLenRev_ascii:
  "list_all isASCII (a # s) \<Longrightarrow> spaceLenRev (a # s) = (if asciiSpace a then 1 else 0)"
  by (cases "a # s" rule: spaceLenRev.cases) (simp_all add: isASCII_not_lead)

lemma list_all_upperByte: "list_all isASCII s \<Longrightarrow> list_all isASCII (map upperByte s)"
  by (induction s) (simp_all add: isASCII_upperByte)

lemma spaceLen_upper: "list_all isASCII s \<Longrightarrow> spaceLen (map upperByte s) = spaceLen s"
  by (cases s) (simp_all add: spaceLen_ascii isASCII_upperByte asciiSpace_upperByte)

lemma spaceLenRev_upper: "list_all isASCII s \<Longrightarrow> spaceLenRev (map upperByte s) = spaceLenRev s"
proof (cases s)
  case Nil
  then show ?thesis by simp
next
  case (Cons a t)
  assume a: "list_all isASCII s"
  then have "list_all isASCII (map upperByte s)" by (rule list_all_upperByte)
  then have "spaceLenRev (upperByte a # map upperByte t) = (if asciiSpace (upperByte a) then 1 else 0)"
    using Cons spaceLenRev_ascii [of "upperByte a" "map upperByte t"] by simp
  moreover have "spaceLenRev (a # t) = (if asciiSpace a then 1 else 0)"
    using a Cons spaceLenRev_ascii [of a t] by simp
  ultimately show ?thesis using Cons by (simp add: asciiSpace_upperByte)
qed

lemma trimFront_suffix: "suffix (trimFront f s) s"
proof (induction f s rule: trimFront.induct)
  case (1 f s)
  show ?case
  proof (cases "f s = 0 \<or> s = []")
    case True
    then show ?thesis by (simp add: trimFront.simps [of f s])
  next
    case False
    then have "suffix (trimFront f (drop (f s) s)) (drop (f s) s)" using 1 by simp
    then have "suffix (trimFront f (drop (f s) s)) s"
      using suffix_drop suffix_order.trans by blast
    with False show ?thesis by (simp add: trimFront.simps [of f s])
  qed
qed

lemma list_all_suffix: "suffix t s \<Longrightarrow> list_all P s \<Longrightarrow> list_all P t"
  by (auto simp: suffix_def)

lemma list_all_drop: "list_all P s \<Longrightarrow> list_all P (drop n s)"
  by (metis list_all_suffix suffix_drop)

lemma trimFront_upper:
  assumes f: "\<And>t. list_all isASCII t \<Longrightarrow> f (map upperByte t) = f t"
  shows "list_all isASCII s \<Longrightarrow> trimFront f (map upperByte s) = map upperByte (trimFront f s)"
proof (induction "length s" arbitrary: s rule: less_induct)
  case less
  show ?case
  proof (cases "f s = 0 \<or> s = []")
    case True
    then have "f (map upperByte s) = 0 \<or> map upperByte s = []"
      using f less.prems by auto
    then show ?thesis
      using True by (simp add: trimFront.simps [of f s] trimFront.simps [of f "map upperByte s"])
  next
    case False
    let ?t = "drop (f s) s"
    have lt: "length ?t < length s" using False by simp
    have asc: "list_all isASCII ?t" using less.prems by (rule list_all_drop)
    have IH: "trimFront f (map upperByte ?t) = map upperByte (trimFront f ?t)"
      using less.hyps [OF lt asc] .
    have fs: "f (map upperByte s) = f s" using f less.prems by simp
    have "trimFront f (map upperByte s) = trimFront f (drop (f s) (map upperByte s))"
      using False fs by (simp add: trimFront.simps [of f "map upperByte s"])
    also have "\<dots> = trimFront f (map upperByte ?t)" by (simp add: drop_map)
    also have "\<dots> = map upperByte (trimFront f ?t)" by (rule IH)
    also have "\<dots> = map upperByte (trimFront f s)"
      using False by (simp add: trimFront.simps [of f s])
    finally show ?thesis .
  qed
qed

lemma TrimLeftSpace_ascii: "list_all isASCII s \<Longrightarrow> list_all isASCII (TrimLeftSpace s)"
  unfolding TrimLeftSpace_def by (metis list_all_suffix trimFront_suffix)

lemma TrimRightSpace_ascii: "list_all isASCII s \<Longrightarrow> list_all isASCII (TrimRightSpace s)"
proof -
  assume "list_all isASCII s"
  then have "list_all isASCII (rev s)" by (simp add: list_all_iff)
  then have "list_all isASCII (trimFront spaceLenRev (rev s))"
    by (metis list_all_suffix trimFront_suffix)
  then show ?thesis by (simp add: TrimRightSpace_def list_all_iff)
qed

lemma TrimSpace_upper:
  assumes "list_all isASCII s"
  shows "TrimSpace (map upperByte s) = map upperByte (TrimSpace s)"
proof -
  have l: "TrimLeftSpace (map upperByte s) = map upperByte (TrimLeftSpace s)"
    unfolding TrimLeftSpace_def using assms
    by (simp add: trimFront_upper [where f = spaceLen, OF spaceLen_upper])
  have a: "list_all isASCII (rev (TrimLeftSpace s))"
    using TrimLeftSpace_ascii [OF assms] by (simp add: list_all_iff)
  have "TrimRightSpace (map upperByte (TrimLeftSpace s))
        = rev (trimFront spaceLenRev (map upperByte (rev (TrimLeftSpace s))))"
    by (simp add: TrimRightSpace_def rev_map)
  also have "\<dots> = rev (map upperByte (trimFront spaceLenRev (rev (TrimLeftSpace s))))"
    using a by (simp add: trimFront_upper [where f = spaceLenRev, OF spaceLenRev_upper])
  also have "\<dots> = map upperByte (TrimRightSpace (TrimLeftSpace s))"
    by (simp add: TrimRightSpace_def rev_map)
  finally show ?thesis by (simp add: TrimSpace_def l)
qed

lemma ToUpper_TrimSpace:
  assumes "list_all isASCII q"
  shows "TrimSpace (ToUpper L q) = ToUpper L (TrimSpace q)"
proof -
  have "list_all isASCII (TrimSpace q)"
    unfolding TrimSpace_def using assms by (intro TrimRightSpace_ascii TrimLeftSpace_ascii)
  then show ?thesis using assms by (simp add: ToUpper_def TrimSpace_upper)
qed

text \<open>
  C2. For every query string, \<open>isQuerySafe\<close> holds exactly when the upper-cased query with
  the surrounding white space removed starts with \<open>SELECT\<close>, \<open>SHOW\<close> or \<open>DESCRIBE\<close>. On
  ASCII text it makes no difference whether the query is trimmed before or after it is
  upper-cased. \<open>"  select 1"\<close> is safe and \<open>"DROP TABLE t"\<close> is not. The classifier is a
  function of the query alone, defined on every string.
\<close>

theorem isQuerySafe_prefix_allow_list:
  "(isQuerySafe L q \<longleftrightarrow>
      prefix ''SELECT'' (TrimSpace (ToUpper L q)) \<or> prefix ''SHOW'' (TrimSpace (ToUpper L q))
      \<or> prefix ''DESCRIBE'' (TrimSpace (ToUpper L q)))
   \<and> (list_all isASCII q \<longrightarrow> TrimSpace (ToUpper L q) = ToUpper L (TrimSpace q))
   \<and> isQuerySafe L ''  select 1'' \<and> \<not> isQuerySafe L ''DROP TABLE t''"
proof -
  have "isQuerySafe L ''  select 1''" by code_simp
  moreover have "\<not> isQuerySafe L ''DROP TABLE t''" by code_simp
  ultimately show ?thesis
    by (simp add: isQuerySafe_def Let_def HasPrefix_iff_prefix ToUpper_TrimSpace)
qed

theorem isQuerySafe_prefix_allow_list_witness:
  "list_all isASCII ''  select 1''
   \<and> TrimSpace (ToUpper exampleLib ''  select 1'') = ''SELECT 1''
   \<and> ToUpper exampleLib (TrimSpace ''  select 1'') = ''SELECT 1''
   \<and> isQuerySafe exampleLib ''  select 1''"
proof -
  have a: "list_all isASCII ''  select 1''" by code_simp
  have t: "TrimSpace ''  select 1'' = ''select 1''" by code_simp
  have u: "ToUpper exampleLib ''select 1'' = ''SELECT 1''" by code_simp
  show ?thesis
    using a t u isQuerySafe_prefix_allow_list [of exampleLib "''  select 1''"] by simp
qed

section \<open>The limit resolver\<close>

lemma parseClickHouseLimit_range:
  "1 \<le> parseClickHouseLimit L x \<and> parseClickHouseLimit L x \<le> 1000"
  by (cases x) (simp_all add: parseClickHouseLimit_def Let_def maxCHLimit_def defaultCHLimit_def)

lemma intOfFloat_floatOfInt: "fitsInt i \<Longrightarrow> intOfFloat L (floatOfInt i) = i"
  by (simp add: intOfFloat_def floatOfInt_def truncFloat_def)

text \<open>
  C7. Resolving a limit that is already a resolved limit changes nothing when the resolved
  limit is passed back as a \<open>float64\<close>: for every argument \<open>x\<close>, \<open>parseClickHouseLimit\<close>
  applied to the \<open>float64\<close> of its own result returns that result. Passed back as the
  \<open>int\<close> it is, the result is no \<open>float64\<close> and resolves to the default, 100.
\<close>

theorem parseClickHouseLimit_idempotent:
  "parseClickHouseLimit L (AFloat64 (floatOfInt (parseClickHouseLimit L x)))
     = parseClickHouseLimit L x
   \<and> parseClickHouseLimit L (AInt (parseClickHouseLimit L x)) = 100"
proof -
  let ?n = "parseClickHouseLimit L x"
  have r: "1 \<le> ?n \<and> ?n \<le> 1000" by (rule parseClickHouseLimit_range)
  then have "fitsInt ?n" by (simp add: fitsInt_def)
  then have "intOfFloat L (floatOfInt ?n) = ?n" by (rule intOfFloat_floatOfInt)
  with r have "parseClickHouseLimit L (AFloat64 (floatOfInt ?n)) = ?n"
    by (simp add: parseClickHouseLimit_def [of L "AFloat64 _"] Let_def maxCHLimit_def)
  moreover have "parseClickHouseLimit L (AInt ?n) = 100"
    by (simp add: parseClickHouseLimit_def [of L "AInt _"] defaultCHLimit_def)
  ultimately show ?thesis by simp
qed

text \<open>
  The resolver applied directly to its own result: the limit 50 resolves to 50, and 50
  as an \<open>int\<close> resolves to 100.
\<close>

theorem parseClickHouseLimit_twice_counterexample:
  "parseClickHouseLimit exampleLib
     (AInt (parseClickHouseLimit exampleLib (AFloat64 (floatOfInt 50))))
   \<noteq> parseClickHouseLimit exampleLib (AFloat64 (floatOfInt 50))"
  by (simp add: parseClickHouseLimit_def intOfFloat_def truncFloat_def fitsInt_def
      floatOfInt_def maxCHLimit_def defaultCHLimit_def)

text \<open>
  What the resolver does with an argument that is no number, and with a number whose
  integer part is a 64-bit integer.
\<close>

lemma parseClickHouseLimit_not_a_number:
  "(\<And>l. x \<noteq> AFloat64 l) \<Longrightarrow> parseClickHouseLimit L x = 100"
  by (cases x) (auto simp: parseClickHouseLimit_def defaultCHLimit_def)

lemma parseClickHouseLimit_clamp:
  "fitsInt (truncFloat m e) \<Longrightarrow>
   parseClickHouseLimit L (AFloat64 (FFinite m e)) = max 1 (min 1000 (truncFloat m e))"
  by (simp add: parseClickHouseLimit_def intOfFloat_def maxCHLimit_def Let_def)

lemma parseClickHouseLimit_examples:
  "parseClickHouseLimit L (AFloat64 (floatOfInt 0)) = 1"
  "parseClickHouseLimit L (AFloat64 (floatOfInt 2000)) = 1000"
  "parseClickHouseLimit L (AFloat64 (floatOfInt (- 10))) = 1"
  "parseClickHouseLimit L (AFloat64 (floatOfInt 50)) = 50"
  "parseClickHouseLimit L (arg Map.empty ''limit'') = 100"
  by (simp_all add: parseClickHouseLimit_def intOfFloat_def truncFloat_def fitsInt_def
      floatOfInt_def maxCHLimit_def defaultCHLimit_def arg_def)

text \<open>
  C4. The resolver is defined on every argument and returns a limit from 1 to 1000. An
  argument that is no \<open>float64\<close> (absent, a string, also a Go \<open>int\<close>) resolves to the
  default, 100. A \<open>float64\<close> whose integer part is a 64-bit integer is cut to that integer
  and clamped: below 1 it gives 1, above 1000 it gives 1000. So 0 gives 1, 2000 gives 1000
  and an absent limit gives 100.
\<close>

theorem parseClickHouseLimit_resolves:
  "1 \<le> parseClickHouseLimit L x \<and> parseClickHouseLimit L x \<le> 1000
   \<and> ((\<forall>l. x \<noteq> AFloat64 l) \<longrightarrow> parseClickHouseLimit L x = 100)
   \<and> (fitsInt (truncFloat m e) \<longrightarrow>
        parseClickHouseLimit L (AFloat64 (FFinite m e)) = max 1 (min 1000 (truncFloat m e)))
   \<and> parseClickHouseLimit L (AFloat64 (floatOfInt 0)) = 1
   \<and> parseClickHouseLimit L (AFloat64 (floatOfInt 2000)) = 1000
   \<and> parseClickHouseLimit L (arg Map.empty ''limit'') = 100"
  using parseClickHouseLimit_range [of L x] parseClickHouseLimit_not_a_number [of x L]
    parseClickHouseLimit_clamp [of m e L] parseClickHouseLimit_examples [of L]
  by blast

theorem parseClickHouseLimit_resolves_witness:
  "(\<forall>l. AString ''ten'' \<noteq> AFloat64 l)
   \<and> parseClickHouseLimit exampleLib (AString ''ten'') = 100
   \<and> fitsInt (truncFloat 2001 (- 1))
   \<and> truncFloat 2001 (- 1) = 1000
   \<and> parseClickHouseLimit exampleLib (AFloat64 (FFinite 2001 (- 1))) = 1000
   \<and> fitsInt (truncFloat (- 7) (- 1))
   \<and> truncFloat (- 7) (- 1) = - 3
   \<and> parseClickHouseLimit exampleLib (AFloat64 (FFinite (- 7) (- 1))) = 1"
proof -
  have a: "\<forall>l. AString ''ten'' \<noteq> AFloat64 l" by simp
  have b: "truncFloat 2001 (- 1) = 1000" "truncFloat (- 7) (- 1) = - 3"
    by (simp_all add: truncFloat_def)
  have c: "fitsInt 1000" "fitsInt (- 3)" by (simp_all add: fitsInt_def)
  show ?thesis
    using a b c
      parseClickHouseLimit_resolves [of exampleLib "AString ''ten''" 2001 "- 1"]
      parseClickHouseLimit_resolves [of exampleLib "AString ''ten''" "- 7" "- 1"]
    by simp
qed

text \<open>
  Two arguments that are numbers and are not clamped: the \<open>int\<close> 5 resolves to the
  default, and on amd64 the \<open>float64\<close> \<open>2 ^ 100\<close>, far above 1000, converts to the least
  64-bit integer and resolves to 1.
\<close>

theorem parseClickHouseLimit_counterexample:
  "parseClickHouseLimit exampleLib (AInt 5) = 100
   \<and> parseClickHouseLimit exampleLib (AFloat64 (FFinite 1 100)) = 1"
  by (simp add: parseClickHouseLimit_def intOfFloat_def truncFloat_def fitsInt_def
      exampleLib_def maxCHLimit_def defaultCHLimit_def)

section \<open>The query executor\<close>

text \<open>
  C3. \<open>executeQuery\<close> submits exactly one query. It is the given query followed by
  \<open>" LIMIT n"\<close> when the upper-cased, trimmed query starts with \<open>SELECT\<close> and the
  upper-cased query has no occurrence of \<open>LIMIT\<close>; in every other case (a \<open>LIMIT\<close>
  anywhere in a \<open>SELECT\<close>, or a query that is no \<open>SELECT\<close>) it is the given query,
  unchanged.
\<close>

theorem executeQuery_limit_rewrite:
  "submitted (snd (executeQuery L D conn q n))
   = [if prefix ''SELECT'' (TrimSpace (ToUpper L q)) \<and> \<not> sublist ''LIMIT'' (ToUpper L q)
      then q @ '' LIMIT '' @ formatInt n else q]"
  by (simp add: executeQuery_def submitted_def Let_def HasPrefix_iff_prefix Contains_iff_sublist
      split: sum.split)

theorem executeQuery_limit_rewrite_witness:
  "submitted (snd (executeQuery exampleLib exampleDriver () ''select * from t'' 5))
     = [''select * from t LIMIT 5'']
   \<and> submitted (snd (executeQuery exampleLib exampleDriver () ''select unlimited from t'' 5))
     = [''select unlimited from t'']
   \<and> submitted (snd (executeQuery exampleLib exampleDriver () ''SHOW TABLES'' 5))
     = [''SHOW TABLES'']"
proof -
  have a: "prefix ''SELECT'' (TrimSpace (ToUpper exampleLib ''select * from t''))"
    by code_simp
  have b: "\<not> sublist ''LIMIT'' (ToUpper exampleLib ''select * from t'')"
    by code_simp
  have c: "sublist ''LIMIT'' (ToUpper exampleLib ''select unlimited from t'')"
    by code_simp
  have d: "\<not> prefix ''SELECT'' (TrimSpace (ToUpper exampleLib ''SHOW TABLES''))"
    by code_simp
  have e: "formatInt 5 = ''5''"
    by (simp add: formatInt_def digitsOf.simps digitChar_def)
  show ?thesis
    using a b c d e
      executeQuery_limit_rewrite [of exampleLib exampleDriver "()" "''select * from t''" 5]
      executeQuery_limit_rewrite [of exampleLib exampleDriver "()" "''select unlimited from t''" 5]
      executeQuery_limit_rewrite [of exampleLib exampleDriver "()" "''SHOW TABLES''" 5]
    by simp
qed

section \<open>The query handler\<close>

text \<open>
  C9. For a query that the classifier rejects, the handler returns an error result and
  has called the driver not at all: no connection was opened.
\<close>

theorem unsafe_query_rejected_before_connect:
  assumes "\<not> isQuerySafe L q" and "args ''query'' = Some (AString q)"
  shows "IsError (fst (clickHouseQueryHandler L D getenv args))
         \<and> snd (clickHouseQueryHandler L D getenv args) = []
         \<and> connectionAttempts (snd (clickHouseQueryHandler L D getenv args)) = 0"
  using assms
  by (simp add: clickHouseQueryHandler_def arg_def errorResult_def connectionAttempts_def)

theorem unsafe_query_rejected_before_connect_witness:
  "\<not> isQuerySafe exampleLib ''DELETE FROM t''
   \<and> IsError (fst (clickHouseQueryHandler exampleLib exampleDriver exampleEnv
                    [''query'' \<mapsto> AString ''DELETE FROM t'']))
   \<and> snd (clickHouseQueryHandler exampleLib exampleDriver exampleEnv
            [''query'' \<mapsto> AString ''DELETE FROM t'']) = []"
proof -
  have a: "\<not> isQuerySafe exampleLib ''DELETE FROM t''" by code_simp
  have b: "[''query'' \<mapsto> AString ''DELETE FROM t''] ''query'' = Some (AString ''DELETE FROM t'')"
    by simp
  show ?thesis
    using a b
      unsafe_query_rejected_before_connect
        [where L = exampleLib and q = "''DELETE FROM t''" and D = exampleDriver
           and getenv = exampleEnv and args = "[''query'' \<mapsto> AString ''DELETE FROM t'']"]
    by simp
qed

lemma safe_query_connects:
  "connectionAttempts (snd (clickHouseQueryHandler exampleLib exampleDriver exampleEnv
      [''query'' \<mapsto> AString ''SELECT 1''])) = 1"
proof -
  have a: "isQuerySafe exampleLib ''SELECT 1''" by code_simp
  have b: "TrimSpace ''SELECT 1'' \<noteq> []" by code_simp
  show ?thesis
    using a b
    by (simp add: clickHouseQueryHandler_def arg_def getClickHouseConfigFromEnv_def exampleEnv_def
        connectToClickHouse_def executeQuery_def exampleDriver_def Let_def
        connectionAttempts_def split: prod.split sum.split)
qed

section \<open>The result materializer\<close>

text \<open>
  C1. The cursor with the columns \<open>id\<close> (UInt32) and \<open>name\<close> (String) and the rows
  (1, a), (2, b), (3, c), rendered with limit 2, gives exactly: the title line, an empty
  line, the header \<open>id | name\<close>, a rule of nine dashes, the lines \<open>1 | a\<close> and \<open>2 | b\<close>,
  an empty line and \<open>Total rows: 2 (limited to 2)\<close>, each ended by a newline.
\<close>

theorem end_to_end_scenario:
  "formatQueryResults L
     (cursor [\<lparr>colName = ''id'', colType = ''UInt32''\<rparr>, \<lparr>colName = ''name'', colType = ''String''\<rparr>]
        [[Some (UInt32 1), Some (Str ''a'')], [Some (UInt32 2), Some (Str ''b'')],
         [Some (UInt32 3), Some (Str ''c'')]])
     2
   = Inr (''Query Results:\<newline>'' @ ''\<newline>'' @ ''id | name\<newline>'' @ ''---------\<newline>''
          @ ''1 | a\<newline>'' @ ''2 | b\<newline>'' @ ''\<newline>'' @ ''Total rows: 2 (limited to 2)\<newline>'')"
  by (simp add: formatQueryResults_def cursor_def createValueSlice_def newTarget_def
      convertValuesToStrings_def sameType_def formatInt_def digitsOf.simps digitChar_def
      Repeat_def)

subsection \<open>The row loop\<close>

lemma scanLoop_scanEach:
  "scanLoop L rows limit rs rc res
   = (case scanEach rows (take (nat (limit - rc)) rs) of
        Inl err \<Rightarrow> Inl (''failed to scan row: '' @ err)
      | Inr vss \<Rightarrow>
          Inr (res @ concat (map (\<lambda>vs. rowLine (convertValuesToStrings L vs)) vss),
               rc + int (length vss)))"
proof (induction rs arbitrary: rc res)
  case Nil
  then show ?case by simp
next
  case (Cons r rest)
  show ?case
  proof (cases "rc \<ge> limit")
    case True
    then show ?thesis by simp
  next
    case False
    then have n: "nat (limit - rc) = Suc (nat (limit - (rc + 1)))" by simp
    show ?thesis
    proof (cases "scanRow rows r (createValueSlice (columnTypes rows))")
      case (Inl err)
      with False n show ?thesis by simp
    next
      case (Inr vs)
      with False n Cons.IH [of "rc + 1" "res @ rowLine (convertValuesToStrings L vs)"]
      show ?thesis by (simp add: rowLine_def split: sum.split)
    qed
  qed
qed

lemma formatQueryResults_scanEach:
  "formatQueryResults L rows limit
   = (case scanEach rows (take (nat limit) (pending rows)) of
        Inl err \<Rightarrow> Inl (''failed to scan row: '' @ err)
      | Inr vss \<Rightarrow>
          (case rowsErr rows of
             Some err \<Rightarrow> Inl (''error iterating rows: '' @ err)
           | None \<Rightarrow>
               Inr (headerText (columnTypes rows)
                    @ concat (map (\<lambda>vs. rowLine (convertValuesToStrings L vs)) vss)
                    @ summaryText (int (length vss)) limit)))"
  by (simp add: formatQueryResults_def scanLoop_scanEach headerText_def Repeat_def Let_def
      summaryText_def split: sum.split option.split)

lemma scanEach_length: "scanEach rows rs = Inr vss \<Longrightarrow> length vss = length rs"
  by (induction rs arbitrary: vss) (auto split: sum.splits)

lemma Join_no_newline:
  "CHR 0x0A \<notin> set (concat fs) \<Longrightarrow> CHR 0x0A \<notin> set (Join fs '' | '')"
  by (induction fs "'' | ''" rule: Join.induct) auto

lemma physicalLines_append: "physicalLines (s @ t) = physicalLines s + physicalLines t"
  by (simp add: physicalLines_def)

lemma physicalLines_none: "CHR 0x0A \<notin> set s \<Longrightarrow> physicalLines s = 0"
  by (induction s) (auto simp: physicalLines_def)

lemma physicalLines_rowLine:
  "CHR 0x0A \<notin> set (concat fs) \<Longrightarrow> physicalLines (rowLine fs) = 1"
  using Join_no_newline [of fs]
  by (simp add: rowLine_def physicalLines_append physicalLines_none) (simp add: physicalLines_def)

lemma physicalLines_rows:
  "CHR 0x0A \<notin> set (concat (concat (map (convertValuesToStrings L) vss))) \<Longrightarrow>
   physicalLines (concat (map (\<lambda>vs. rowLine (convertValuesToStrings L vs)) vss)) = length vss"
proof (induction vss)
  case Nil
  then show ?case by (simp add: physicalLines_def)
next
  case (Cons vs vss)
  then have "CHR 0x0A \<notin> set (concat (convertValuesToStrings L vs))"
    and "CHR 0x0A \<notin> set (concat (concat (map (convertValuesToStrings L) vss)))"
    by auto
  then show ?case
    using Cons.IH by (simp add: physicalLines_append physicalLines_rowLine)
qed

text \<open>
  C5. \<open>formatQueryResults\<close> scans the first \<open>limit\<close> rows of the cursor (none for a limit
  below 1) and nothing after them. Its result is the scan error of the first of these
  rows that \<open>Scan\<close> rejects; else the iteration error of the cursor; else the header, the
  line of each scanned row and the summary. So a table has as many row lines as the
  smaller of the limit and the number of rows, at most the limit when that is not
  negative, and each row is one line of text when no rendered field has a newline in it.
\<close>

theorem rendered_rows_bounded_by_limit:
  "formatQueryResults L rows limit
   = (case scanEach rows (take (nat limit) (pending rows)) of
        Inl err \<Rightarrow> Inl (''failed to scan row: '' @ err)
      | Inr vss \<Rightarrow>
          (case rowsErr rows of
             Some err \<Rightarrow> Inl (''error iterating rows: '' @ err)
           | None \<Rightarrow>
               Inr (headerText (columnTypes rows)
                    @ concat (map (\<lambda>vs. rowLine (convertValuesToStrings L vs)) vss)
                    @ summaryText (int (length vss)) limit)))
   \<and> (scanEach rows (take (nat limit) (pending rows)) = Inr vss \<longrightarrow>
        length vss = min (nat limit) (length (pending rows))
        \<and> int (length vss) \<le> max 0 limit
        \<and> (CHR 0x0A \<notin> set (concat (concat (map (convertValuesToStrings L) vss))) \<longrightarrow>
             physicalLines (concat (map (\<lambda>vs. rowLine (convertValuesToStrings L vs)) vss))
             = length vss))"
proof -
  have "length vss = min (nat limit) (length (pending rows)) \<and> int (length vss) \<le> max 0 limit"
    if "scanEach rows (take (nat limit) (pending rows)) = Inr vss"
    using scanEach_length [OF that] by auto
  then show ?thesis
    using formatQueryResults_scanEach [of L rows limit] physicalLines_rows [of L vss]
    by blast
qed

theorem rendered_rows_bounded_by_limit_witness:
  "scanEach (cursor exampleColumns exampleRows) (take (nat 2) exampleRows)
     = Inr [[Ptr (UInt32 1), Ptr (Str ''a'')], [Ptr (UInt32 2), Ptr (Str ''b'')]]
   \<and> length [[Ptr (UInt32 1), Ptr (Str ''a'')], [Ptr (UInt32 2), Ptr (Str ''b'')]]
     = min (nat 2) (length exampleRows)
   \<and> CHR 0x0A \<notin> set (concat (concat (map (convertValuesToStrings exampleLib)
         [[Ptr (UInt32 1), Ptr (Str ''a'')], [Ptr (UInt32 2), Ptr (Str ''b'')]])))
   \<and> physicalLines (concat (map (\<lambda>vs. rowLine (convertValuesToStrings exampleLib vs))
         [[Ptr (UInt32 1), Ptr (Str ''a'')], [Ptr (UInt32 2), Ptr (Str ''b'')]])) = 2
   \<and> formatQueryResults exampleLib (cursor exampleColumns exampleRows) 2
     = Inr (headerText exampleColumns @ ''1 | a\<newline>'' @ ''2 | b\<newline>'' @ summaryText 2 2)
   \<and> formatQueryResults exampleLib
       (cursor exampleColumns
          [[Some (UInt32 1), Some (Str ''a'')], [Some (UInt32 2), Some (Str ''b'')],
           [Some (Str ''no number''), None]]) 2
     = Inr (headerText exampleColumns @ ''1 | a\<newline>'' @ ''2 | b\<newline>'' @ summaryText 2 2)"
proof -
  let ?vss = "[[Ptr (UInt32 1), Ptr (Str ''a'')], [Ptr (UInt32 2), Ptr (Str ''b'')]]"
  let ?bad = "[[Some (UInt32 1), Some (Str ''a'')], [Some (UInt32 2), Some (Str ''b'')],
               [Some (Str ''no number''), None]]"
  have a: "scanEach (cursor exampleColumns exampleRows) (take (nat 2) exampleRows) = Inr ?vss"
    by (simp add: cursor_def exampleColumns_def exampleRows_def createValueSlice_def
        newTarget_def sameType_def)
  have b: "scanEach (cursor exampleColumns ?bad)
             (take (nat 2) (pending (cursor exampleColumns ?bad))) = Inr ?vss"
    by (simp add: cursor_def exampleColumns_def createValueSlice_def newTarget_def sameType_def)
  have c: "convertValuesToStrings exampleLib [Ptr (UInt32 1), Ptr (Str ''a'')] = [''1'', ''a'']"
          "convertValuesToStrings exampleLib [Ptr (UInt32 2), Ptr (Str ''b'')] = [''2'', ''b'']"
    by (simp_all add: convertValuesToStrings_def formatInt_def digitsOf.simps digitChar_def)
  have d: "pending (cursor exampleColumns exampleRows) = exampleRows"
          "rowsErr (cursor exampleColumns exampleRows) = None"
          "columnTypes (cursor exampleColumns exampleRows) = exampleColumns"
          "rowsErr (cursor exampleColumns ?bad) = None"
          "columnTypes (cursor exampleColumns ?bad) = exampleColumns"
    by (simp_all add: cursor_def)
  have e: "length exampleRows = 3" by (simp add: exampleRows_def)
  show ?thesis
    using a b
      rendered_rows_bounded_by_limit
        [where L = exampleLib and rows = "cursor exampleColumns exampleRows" and limit = 2
           and vss = ?vss]
      rendered_rows_bounded_by_limit
        [where L = exampleLib and rows = "cursor exampleColumns ?bad" and limit = 2
           and vss = ?vss]
    by (simp add: c d e rowLine_def)
qed

text \<open>
  A text cell of three lines rendered under limit 1 puts three lines between the rule and
  the summary; and under the limit -1 the table has no row, which is still more than -1.
\<close>

theorem rendered_rows_counterexample:
  "formatQueryResults exampleLib
     (cursor [\<lparr>colName = ''s'', colType = ''String''\<rparr>] [[Some (Str ''a\<newline>b\<newline>c'')]]) 1
     = Inr (headerText [\<lparr>colName = ''s'', colType = ''String''\<rparr>] @ ''a\<newline>b\<newline>c\<newline>''
            @ summaryText 1 1)
   \<and> physicalLines ''a\<newline>b\<newline>c\<newline>'' = 3
   \<and> (1::int) < 3
   \<and> formatQueryResults exampleLib (cursor exampleColumns exampleRows) (- 1)
     = Inr (headerText exampleColumns @ [] @ summaryText 0 (- 1))
   \<and> (- 1::int) < 0"
  by (simp add: formatQueryResults_def cursor_def exampleColumns_def exampleRows_def
      createValueSlice_def newTarget_def convertValuesToStrings_def sameType_def
      headerText_def summaryText_def physicalLines_def Repeat_def formatInt_def
      digitsOf.simps digitChar_def)

subsection \<open>Decode targets and formats\<close>

lemma pointee_newTarget: "pointee (newTarget tag) = goTypeFor tag"
  by (auto simp: newTarget_def goTypeFor_def decodeTable_def)

lemma newTarget_unlisted: "map_of decodeTable tag = None \<Longrightarrow> newTarget tag = Ptr (Str [])"
  by (auto simp: newTarget_def decodeTable_def split: if_splits)

text \<open>
  C8. \<open>createValueSlice\<close> chooses each target by the engine type name of its column as
  the table \<open>decodeTable\<close> says (the integers by width and sign, the two floats, a string
  for \<open>String\<close> and \<open>FixedString\<close>, a time for \<open>Date\<close>, \<open>DateTime\<close> and \<open>DateTime64\<close>), and a
  string for every name that is not in the table. \<open>convertValuesToStrings\<close> prints an
  integer in decimal (read back, the digits give the integer), a float with the verb
  \<open>%g\<close>, a string as it is, and a time with a four-digit year as
  \<open>YYYY-MM-DD HH:MM:SS\<close>.
\<close>

theorem decode_targets_and_formats:
  "map pointee (createValueSlice cols) = map (\<lambda>c. goTypeFor (colType c)) cols
   \<and> (map_of decodeTable tag = None \<longrightarrow> newTarget tag = Ptr (Str []))
   \<and> convertValuesToStrings L
        [Ptr (UInt8 ua), Ptr (UInt16 ub), Ptr (UInt32 uc), Ptr (UInt64 ud),
         Ptr (Int8 ia), Ptr (Int16 ib), Ptr (Int32 ic), Ptr (Int64 ie),
         Ptr (Float32 fa), Ptr (Float64 fb), Ptr (Str s), Ptr (Time t)]
      = [formatInt (uint ua), formatInt (uint ub), formatInt (uint uc), formatInt (uint ud),
         formatInt (sint ia), formatInt (sint ib), formatInt (sint ic), formatInt (sint ie),
         formatFloat L 32 fa, formatFloat L 64 fb, s, Format t]
   \<and> decimalValue (formatInt i) = i
   \<and> (civil t \<longrightarrow>
        Format t = fourDigits (tYear t) @ ''-'' @ twoDigits (tMonth t) @ ''-''
                   @ twoDigits (tDay t) @ '' '' @ twoDigits (tHour t) @ '':''
                   @ twoDigits (tMinute t) @ '':'' @ twoDigits (tSecond t))"
proof -
  have "map pointee (createValueSlice cols) = map (\<lambda>c. goTypeFor (colType c)) cols"
    by (simp add: createValueSlice_def pointee_newTarget)
  moreover have "map_of decodeTable tag = None \<longrightarrow> newTarget tag = Ptr (Str [])"
    using newTarget_unlisted by blast
  ultimately show ?thesis
    by (simp add: convertValuesToStrings_def decimalValue_formatInt Format_civil)
qed

theorem decode_targets_and_formats_witness:
  "map_of decodeTable ''Nullable(String)'' = None
   \<and> newTarget ''Nullable(String)'' = Ptr (Str [])
   \<and> civil \<lparr>tYear = 2024, tMonth = 3, tDay = 7, tHour = 9, tMinute = 5, tSecond = 1\<rparr>
   \<and> Format \<lparr>tYear = 2024, tMonth = 3, tDay = 7, tHour = 9, tMinute = 5, tSecond = 1\<rparr>
      = ''2024-03-07 09:05:01''
   \<and> convertValuesToStrings exampleLib [Ptr (UInt8 255), Ptr (Int8 255), Ptr (Str ''x'')]
      = [''255'', ''-1'', ''x'']"
proof -
  let ?t = "\<lparr>tYear = 2024, tMonth = 3, tDay = 7, tHour = 9, tMinute = 5, tSecond = 1\<rparr>"
  have a: "map_of decodeTable ''Nullable(String)'' = None"
    by (simp add: decodeTable_def)
  have b: "civil ?t" by (simp add: civil_def)
  have c: "convertValuesToStrings exampleLib [Ptr (UInt8 255), Ptr (Int8 255), Ptr (Str ''x'')]
           = [''255'', ''-1'', ''x'']"
    by (simp add: convertValuesToStrings_def formatInt_def digitsOf.simps digitChar_def)
  show ?thesis
    using a b c
      decode_targets_and_formats
        [where tag = "''Nullable(String)''" and t = ?t and L = exampleLib and cols = "[]"
           and ua = 0 and ub = 0 and uc = 0 and ud = 0 and ia = 0 and ib = 0 and ic = 0
           and ie = 0 and fa = FNaN and fb = FNaN and s = "[]" and i = 0]
    by (simp add: fourDigits_def twoDigits_def digitChar_def)
qed

subsection \<open>Targets are never nil\<close>

lemma newTarget_Ptr: "newTarget tag \<in> range Ptr"
  by (simp add: newTarget_def)

lemma createValueSlice_Ptr: "set (createValueSlice cols) \<subseteq> range Ptr"
  using newTarget_Ptr by (auto simp: createValueSlice_def)

lemma sameTarget_Ptr: "sameTarget v w \<Longrightarrow> v \<in> range Ptr \<Longrightarrow> w \<in> range Ptr"
  by (cases v; cases w) auto

lemma list_all2_sameTarget_Ptr:
  "list_all2 sameTarget vs ws \<Longrightarrow> set vs \<subseteq> range Ptr \<Longrightarrow> set ws \<subseteq> range Ptr"
proof (induction rule: list_all2_induct)
  case Nil
  then show ?case by simp
next
  case (Cons v vs w ws)
  then have "w \<in> range Ptr" using sameTarget_Ptr [of v w] by simp
  with Cons show ?case by simp
qed

lemma sameTarget_refl: "sameTarget v v"
  by (cases v) (simp_all add: sameType_def)

lemma storeCell_sameTarget: "storeCell c d = Inr d' \<Longrightarrow> sameTarget d d'"
  by (cases "(c, d)" rule: storeCell.cases)
     (auto simp: sameTarget_refl sameType_def split: if_splits)

lemma storeRow_sameTarget: "storeRow cs ds = Inr ds' \<Longrightarrow> list_all2 sameTarget ds ds'"
proof (induction cs ds arbitrary: ds' rule: storeRow.induct)
  case 1
  then show ?case by simp
next
  case (2 c cs d ds)
  then obtain e es where e: "storeCell c d = Inr e" "storeRow cs ds = Inr es" "ds' = e # es"
    by (auto split: sum.splits)
  then show ?case using 2 storeCell_sameTarget by simp
qed simp_all

lemma cursor_storesThrough: "storesThrough (cursor cols rs)"
  by (simp add: storesThrough_def cursor_def storeRow_sameTarget)

lemma sameTarget_pointee: "sameTarget v w \<Longrightarrow> pointee w = pointee v"
  by (cases v; cases w) (auto simp: sameType_def)

lemma list_all2_sameTarget_pointee:
  "list_all2 sameTarget vs ws \<Longrightarrow> map pointee ws = map pointee vs"
  by (induction rule: list_all2_induct) (simp_all add: sameTarget_pointee)

lemma scanned_targets:
  assumes "storesThrough rows" and "scanRow rows r (createValueSlice cols) = Inr vs"
  shows "set vs \<subseteq> range Ptr"
    and "map pointee vs = map (\<lambda>c. goTypeFor (colType c)) cols"
proof -
  from assms have l: "list_all2 sameTarget (createValueSlice cols) vs"
    by (simp add: storesThrough_def)
  then show "set vs \<subseteq> range Ptr"
    using createValueSlice_Ptr by (rule list_all2_sameTarget_Ptr)
  show "map pointee vs = map (\<lambda>c. goTypeFor (colType c)) cols"
    using list_all2_sameTarget_pointee [OF l]
    by (simp add: createValueSlice_def pointee_newTarget)
qed

lemma scanLoop_pointers:
  assumes "storesThrough rows"
  shows "scanLoop L rows limit rs rc res = Inr (out, n) \<Longrightarrow>
         \<exists>vss. out = res @ concat (map (\<lambda>vs. rowLine (convertValuesToStrings L vs)) vss)
               \<and> (\<forall>vs \<in> set vss. set vs \<subseteq> range Ptr)"
proof (induction rs arbitrary: rc res)
  case Nil
  then have "out = res @ concat (map (\<lambda>vs. rowLine (convertValuesToStrings L vs)) [])"
    by simp
  then show ?case by (metis empty_iff list.set(1))
next
  case (Cons r rest)
  show ?case
  proof (cases "rc \<ge> limit")
    case True
    with Cons.prems
    have "out = res @ concat (map (\<lambda>vs. rowLine (convertValuesToStrings L vs)) [])"
      by simp
    then show ?thesis by (metis empty_iff list.set(1))
  next
    case False
    then obtain vs where
      sc: "scanRow rows r (createValueSlice (columnTypes rows)) = Inr vs"
      using Cons.prems by (auto split: sum.splits)
    have p: "set vs \<subseteq> range Ptr" using assms sc by (rule scanned_targets(1))
    from False sc Cons.prems
    have "scanLoop L rows limit rest (rc + 1)
            (res @ rowLine (convertValuesToStrings L vs)) = Inr (out, n)"
      by (simp add: rowLine_def)
    then obtain vss where
      v: "out = (res @ rowLine (convertValuesToStrings L vs))
                @ concat (map (\<lambda>vs. rowLine (convertValuesToStrings L vs)) vss)"
         "\<forall>vs \<in> set vss. set vs \<subseteq> range Ptr"
      using Cons.IH by blast
    then have "out = res @ concat (map (\<lambda>vs. rowLine (convertValuesToStrings L vs)) (vs # vss))
               \<and> (\<forall>w \<in> set (vs # vss). set w \<subseteq> range Ptr)"
      using p by simp
    then show ?thesis by blast
  qed
qed

lemma formatQueryResults_pointers:
  assumes "storesThrough rows" and "formatQueryResults L rows limit = Inr out"
  shows "\<exists>vss n. out = headerText (columnTypes rows)
                       @ concat (map (\<lambda>vs. rowLine (convertValuesToStrings L vs)) vss)
                       @ summaryText n limit
                 \<and> (\<forall>vs \<in> set vss. set vs \<subseteq> range Ptr)"
proof -
  let ?h = "headerText (columnTypes rows)"
  obtain res n where sl: "scanLoop L rows limit (pending rows) 0 ?h = Inr (res, n)"
    using assms(2)
    by (auto simp: formatQueryResults_def headerText_def Repeat_def Let_def split: sum.splits)
  with assms(2) have out: "out = res @ summaryText n limit"
    by (auto simp: formatQueryResults_def headerText_def Repeat_def Let_def summaryText_def
        split: option.splits if_splits)
  from scanLoop_pointers [OF assms(1) sl] obtain vss where
    "res = ?h @ concat (map (\<lambda>vs. rowLine (convertValuesToStrings L vs)) vss)"
    "\<forall>vs \<in> set vss. set vs \<subseteq> range Ptr"
    by blast
  with out show ?thesis by auto
qed

lemma scanEach_pointers:
  assumes "storesThrough rows"
  shows "scanEach rows rs = Inr vss \<Longrightarrow> set (concat vss) \<subseteq> range Ptr"
proof (induction rs arbitrary: vss)
  case Nil
  then show ?case by simp
next
  case (Cons r rs)
  then obtain vs ws where
    s: "scanRow rows r (createValueSlice (columnTypes rows)) = Inr vs"
       "scanEach rows rs = Inr ws" "vss = vs # ws"
    by (auto split: sum.splits)
  have "set vs \<subseteq> range Ptr" using assms s(1) by (rule scanned_targets(1))
  moreover have "set (concat ws) \<subseteq> range Ptr" using Cons.IH s(2) by simp
  ultimately show ?case using s(3) by simp
qed

text \<open>
  C10. Every element that \<open>createValueSlice\<close> returns is a pointer, never nil, one for
  each column; a type name of the form \<open>Nullable(...)\<close> gets a string target. After a
  \<open>Scan\<close> that stores through the pointers, the elements are still pointers of the same
  types, so every slice that \<open>formatQueryResults\<close> hands to \<open>convertValuesToStrings\<close> is
  free of nil and the nil case is not reached: a database NULL is never rendered by it. A
  row that \<open>Scan\<close> rejects gives the error \<open>failed to scan row\<close>; a row that \<open>Scan\<close>
  accepts is rendered from what \<open>Scan\<close> left in the targets.
\<close>

theorem createValueSlice_never_nil:
  "Nil \<notin> set (createValueSlice cols)
   \<and> set (createValueSlice cols) \<subseteq> range Ptr
   \<and> length (createValueSlice cols) = length cols
   \<and> newTarget (''Nullable('' @ inner @ '')'') = Ptr (Str [])
   \<and> (storesThrough rows \<and> scanRow rows r (createValueSlice cols) = Inr vs
        \<longrightarrow> Nil \<notin> set vs \<and> set vs \<subseteq> range Ptr
            \<and> map pointee vs = map (\<lambda>c. goTypeFor (colType c)) cols)
   \<and> (storesThrough rows \<and> scanEach rows (take (nat limit) (pending rows)) = Inr vss
        \<longrightarrow> Nil \<notin> set (concat vss) \<and> set (concat vss) \<subseteq> range Ptr
            \<and> formatQueryResults L rows limit
              = (case rowsErr rows of
                   Some err \<Rightarrow> Inl (''error iterating rows: '' @ err)
                 | None \<Rightarrow>
                     Inr (headerText (columnTypes rows)
                          @ concat (map (\<lambda>vs. rowLine (convertValuesToStrings L vs)) vss)
                          @ summaryText (int (length vss)) limit)))
   \<and> (scanEach rows (take (nat limit) (pending rows)) = Inl err
        \<longrightarrow> formatQueryResults L rows limit = Inl (''failed to scan row: '' @ err))"
proof -
  have a: "set (createValueSlice cols) \<subseteq> range Ptr" by (rule createValueSlice_Ptr)
  then have b: "Nil \<notin> set (createValueSlice cols)" by auto
  have c: "newTarget (''Nullable('' @ inner @ '')'') = Ptr (Str [])"
    by (simp add: newTarget_def)
  have d: "Nil \<notin> set vs \<and> set vs \<subseteq> range Ptr
           \<and> map pointee vs = map (\<lambda>c. goTypeFor (colType c)) cols"
    if "storesThrough rows" "scanRow rows r (createValueSlice cols) = Inr vs"
    using scanned_targets [OF that] by auto
  have e: "length (createValueSlice cols) = length cols" by (simp add: createValueSlice_def)
  have f: "Nil \<notin> set (concat vss) \<and> set (concat vss) \<subseteq> range Ptr"
    if "storesThrough rows" "scanEach rows (take (nat limit) (pending rows)) = Inr vss"
    using scanEach_pointers [OF that] by auto
  have g: "formatQueryResults L rows limit
           = (case rowsErr rows of
                Some err \<Rightarrow> Inl (''error iterating rows: '' @ err)
              | None \<Rightarrow>
                  Inr (headerText (columnTypes rows)
                       @ concat (map (\<lambda>vs. rowLine (convertValuesToStrings L vs)) vss)
                       @ summaryText (int (length vss)) limit))"
    if "scanEach rows (take (nat limit) (pending rows)) = Inr vss"
    using that by (simp add: formatQueryResults_scanEach)
  have h: "formatQueryResults L rows limit = Inl (''failed to scan row: '' @ err)"
    if "scanEach rows (take (nat limit) (pending rows)) = Inl err"
    using that by (simp add: formatQueryResults_scanEach)
  from a b c d e f g h show ?thesis by blast
qed

theorem createValueSlice_never_nil_witness:
  "storesThrough (cursor [\<lparr>colName = ''name'', colType = ''Nullable(String)''\<rparr>] [[None]])
   \<and> scanRow (cursor [\<lparr>colName = ''name'', colType = ''Nullable(String)''\<rparr>] [[None]]) [None]
        (createValueSlice [\<lparr>colName = ''name'', colType = ''Nullable(String)''\<rparr>])
      = Inr [Ptr (Str [])]
   \<and> Nil \<notin> set [Ptr (Str [])]
   \<and> scanEach (cursor [\<lparr>colName = ''name'', colType = ''Nullable(String)''\<rparr>] [[None]])
        (take (nat 10) [[None]]) = Inr [[Ptr (Str [])]]
   \<and> Nil \<notin> set (concat [[Ptr (Str [])]])
   \<and> scanEach (cursor [\<lparr>colName = ''id'', colType = ''UInt32''\<rparr>] [[Some (Str ''x'')]])
        (take (nat 10) [[Some (Str ''x'')]]) = Inl ''unsupported conversion''
   \<and> formatQueryResults exampleLib
        (cursor [\<lparr>colName = ''id'', colType = ''UInt32''\<rparr>] [[Some (Str ''x'')]]) 10
      = Inl ''failed to scan row: unsupported conversion''"
proof -
  let ?c = "[\<lparr>colName = ''name'', colType = ''Nullable(String)''\<rparr>]"
  let ?d = "[\<lparr>colName = ''id'', colType = ''UInt32''\<rparr>]"
  have a: "storesThrough (cursor ?c [[None]])" by (rule cursor_storesThrough)
  have b: "scanRow (cursor ?c [[None]]) [None] (createValueSlice ?c) = Inr [Ptr (Str [])]"
    by (simp add: cursor_def createValueSlice_def newTarget_def)
  have c: "scanEach (cursor ?c [[None]]) (take (nat 10) (pending (cursor ?c [[None]])))
           = Inr [[Ptr (Str [])]]"
    by (simp add: cursor_def createValueSlice_def newTarget_def)
  have d: "scanEach (cursor ?d [[Some (Str ''x'')]])
             (take (nat 10) (pending (cursor ?d [[Some (Str ''x'')]])))
           = Inl ''unsupported conversion''"
    by (simp add: cursor_def createValueSlice_def newTarget_def sameType_def)
  have e: "pending (cursor ?c [[None]]) = [[None]]"
          "pending (cursor ?d [[Some (Str ''x'')]]) = [[Some (Str ''x'')]]"
    by (simp_all add: cursor_def)
  show ?thesis
    using a b c d
      createValueSlice_never_nil [where cols = ?c and rows = "cursor ?c [[None]]"
        and r = "[None]" and vs = "[Ptr (Str [])]" and inner = "''String''"
        and limit = 10 and vss = "[[Ptr (Str [])]]" and L = exampleLib
        and err = "''unsupported conversion''"]
      createValueSlice_never_nil [where cols = ?d
        and rows = "cursor ?d [[Some (Str ''x'')]]"
        and r = "[None]" and vs = "[Ptr (Str [])]" and inner = "''String''"
        and limit = 10 and vss = "[[Ptr (Str [])]]" and L = exampleLib
        and err = "''unsupported conversion''"]
    by (simp add: e)
qed

text \<open>
  A database NULL in a \<open>Nullable(String)\<close> column, read through the cursor of the
  examples: \<open>Scan\<close> accepts the row, there is no error, and the NULL shows as an empty
  line of the table.
\<close>

theorem null_without_scan_error_counterexample:
  "scanRow (cursor [\<lparr>colName = ''name'', colType = ''Nullable(String)''\<rparr>] [[None]]) [None]
     (createValueSlice [\<lparr>colName = ''name'', colType = ''Nullable(String)''\<rparr>])
   = Inr [Ptr (Str [])]
   \<and> formatQueryResults exampleLib
       (cursor [\<lparr>colName = ''name'', colType = ''Nullable(String)''\<rparr>] [[None]]) 10
     = Inr (headerText [\<lparr>colName = ''name'', colType = ''Nullable(String)''\<rparr>] @ ''\<newline>''
            @ summaryText 1 10)"
  by (simp add: formatQueryResults_def cursor_def createValueSlice_def newTarget_def
      convertValuesToStrings_def headerText_def summaryText_def Repeat_def formatInt_def
      digitsOf.simps digitChar_def)

text \<open>
  C6. A row with a database NULL in a \<open>Nullable(String)\<close> column, read through the
  cursor of the examples: the target is a string pointer, the NULL leaves its variable
  empty, and the field is rendered empty, not as \<open>NULL\<close>.
\<close>

theorem null_cell_is_not_rendered_as_NULL:
  "formatQueryResults L
     (cursor [\<lparr>colName = ''id'', colType = ''UInt32''\<rparr>,
              \<lparr>colName = ''name'', colType = ''Nullable(String)''\<rparr>]
        [[Some (UInt32 7), None]])
     10
   = Inr (''Query Results:\<newline>'' @ ''\<newline>'' @ ''id | name\<newline>'' @ ''---------\<newline>''
          @ ''7 | \<newline>'' @ ''\<newline>'' @ ''Total rows: 1\<newline>'')"
  by (simp add: formatQueryResults_def cursor_def createValueSlice_def newTarget_def
      convertValuesToStrings_def sameType_def formatInt_def digitsOf.simps digitChar_def
      Repeat_def)

end
